theory Spec2Isabelle
  imports Main
begin

section \<open>The page script \<open>click_element.js\<close>\<close>

text \<open>
  The script is injected into a live page and run as a function body: it reads the
  ambient \<open>arguments\<close> list, queries the ambient \<open>document\<close>, calls two helpers of
  \<open>dom.js\<close> (\<open>findElementByWtlUid\<close>, \<open>clickElement\<close>) and writes to the console.
  Everything ambient is made explicit here: the argument list and the document are
  parameters, the three capabilities the script calls are the fields of a \<open>host\<close>
  record, and every call that is observable from outside (lookups, console output,
  clicks) is appended to a trace in program order.
\<close>

subsection \<open>Values, events, completions\<close>

text \<open>
  The JavaScript values the script handles. \<open>JNull\<close> and \<open>JUndefined\<close> are kept apart
  because the script tests with \<open>=== null\<close> and \<open>!== null\<close>, which \<open>undefined\<close> does
  not satisfy resp. does satisfy.
\<close>

datatype 'e jsval = JNull | JUndefined | JString string | JElement 'e

datatype 'e event =
    QuerySelector "'e jsval"
  | ConsoleError string "'e jsval"
  | ConsoleLog string "'e jsval"
  | FindElementByWtlUid "'e jsval"
  | ClickElement "'e jsval"

datatype 'x completion = Returned | Threw 'x

text \<open>
  The capabilities of the page. \<open>document.querySelector\<close> is the query primitive of
  the browser: it reads the document and either yields a value or raises.
  \<open>findElementByWtlUid\<close> and \<open>clickElement\<close> are defined in \<open>dom.js\<close>, which the
  script requires but does not contain; they are parameters. The lookup helper
  reads the document and yields a value or raises; the click helper may change the
  document (handlers run) and may raise.
\<close>

record ('d, 'e, 'x) host =
  querySelector :: "'d \<Rightarrow> 'e jsval \<Rightarrow> 'x + 'e jsval"
  findElementByWtlUid :: "'d \<Rightarrow> 'e jsval \<Rightarrow> 'x + 'e jsval"
  clickElement :: "'d \<Rightarrow> 'e jsval \<Rightarrow> 'd \<times> 'x completion"

text \<open>What one invocation leaves behind.\<close>

record ('d, 'e, 'x) run =
  document :: 'd
  trace :: "'e event list"
  completion :: "'x completion"

subsection \<open>The script\<close>

text \<open>\<open>arguments[i]\<close>: reading past the end of the argument list gives \<open>undefined\<close>.\<close>

definition argument :: "'e jsval list \<Rightarrow> nat \<Rightarrow> 'e jsval" where
  "argument arguments i = (if i < length arguments then arguments ! i else JUndefined)"

text \<open>
  \<^verbatim>\<open>
  let selector = arguments[0];
  let wtlUid = null;
  if (arguments.length > 1) { wtlUid = arguments[1]; }
  let element = document.querySelector(selector);
  if (element !== null) {
    clickElement(element);
  } else {
    console.error('click_element: Element not found with selector: ', selector);
    if (wtlUid === null) { return; }
    console.log('click_element: Trying to find element by wtl-uid: ', wtlUid);
    element = findElementByWtlUid(wtlUid);
    if (element !== null) {
      clickElement(element);
    } else {
      console.error('click_element: Element not found with wtl-uid: ', wtlUid);
    }
  }
  \<close>
  There is no \<open>try\<close> in the script, so whatever a capability raises ends the
  invocation with that exception.
\<close>

definition click_element ::
  "('d, 'e, 'x) host \<Rightarrow> 'e jsval list \<Rightarrow> 'd \<Rightarrow> ('d, 'e, 'x) run" where
  "click_element h arguments doc =
    (let selector = argument arguments 0;
         wtlUid = (if length arguments > 1 then argument arguments 1 else JNull);
         t1 = [QuerySelector selector]
     in case querySelector h doc selector of
          Inl x \<Rightarrow> \<lparr>document = doc, trace = t1, completion = Threw x\<rparr>
        | Inr element \<Rightarrow>
            if element \<noteq> JNull then
              (case clickElement h doc element of
                 (doc', c) \<Rightarrow>
                   \<lparr>document = doc', trace = t1 @ [ClickElement element], completion = c\<rparr>)
            else
              (let t2 = t1 @
                     [ConsoleError ''click_element: Element not found with selector: ''
                        selector]
               in if wtlUid = JNull then
                    \<lparr>document = doc, trace = t2, completion = Returned\<rparr>
                  else
                    (let t3 = t2 @
                           [ConsoleLog ''click_element: Trying to find element by wtl-uid: ''
                              wtlUid,
                            FindElementByWtlUid wtlUid]
                     in case findElementByWtlUid h doc wtlUid of
                          Inl x \<Rightarrow> \<lparr>document = doc, trace = t3, completion = Threw x\<rparr>
                        | Inr element \<Rightarrow>
                            if element \<noteq> JNull then
                              (case clickElement h doc element of
                                 (doc', c) \<Rightarrow>
                                   \<lparr>document = doc',
                                    trace = t3 @ [ClickElement element],
                                    completion = c\<rparr>)
                            else
                              \<lparr>document = doc,
                               trace = t3 @
                                 [ConsoleError
                                    ''click_element: Element not found with wtl-uid: ''
                                    wtlUid],
                               completion = Returned\<rparr>)))"

subsection \<open>Reading a trace\<close>

text \<open>The three diagnostics, named after what they report.\<close>

definition primary_lookup_failed :: "'e jsval \<Rightarrow> 'e event" where
  "primary_lookup_failed v =
     ConsoleError ''click_element: Element not found with selector: '' v"

definition fallback_attempted :: "'e jsval \<Rightarrow> 'e event" where
  "fallback_attempted v =
     ConsoleLog ''click_element: Trying to find element by wtl-uid: '' v"

definition fallback_lookup_failed :: "'e jsval \<Rightarrow> 'e event" where
  "fallback_lookup_failed v =
     ConsoleError ''click_element: Element not found with wtl-uid: '' v"

fun is_diagnostic :: "'e event \<Rightarrow> bool" where
  "is_diagnostic (ConsoleError m v) = True"
| "is_diagnostic (ConsoleLog m v) = True"
| "is_diagnostic ev = False"

fun is_click :: "'e event \<Rightarrow> bool" where
  "is_click (ClickElement v) = True"
| "is_click ev = False"

fun is_primary_lookup :: "'e event \<Rightarrow> bool" where
  "is_primary_lookup (QuerySelector v) = True"
| "is_primary_lookup ev = False"

fun is_fallback_lookup :: "'e event \<Rightarrow> bool" where
  "is_fallback_lookup (FindElementByWtlUid v) = True"
| "is_fallback_lookup ev = False"

definition diagnostics :: "'e event list \<Rightarrow> 'e event list" where
  "diagnostics t = filter is_diagnostic t"

definition clicks :: "'e event list \<Rightarrow> 'e event list" where
  "clicks t = filter is_click t"

definition primary_lookups :: "'e event list \<Rightarrow> 'e event list" where
  "primary_lookups t = filter is_primary_lookup t"

definition fallback_lookups :: "'e event list \<Rightarrow> 'e event list" where
  "fallback_lookups t = filter is_fallback_lookup t"

subsection \<open>The document query primitive and the helpers of \<open>dom.js\<close>\<close>

text \<open>
  A document is the list of its element nodes in document order (the node tree read
  depth first), and an element handle is the position of its node in that list, so
  that two nodes with equal attributes are still two elements.
\<close>

datatype dom_exception = SyntaxError | TypeError

record dom_node =
  tag_name :: string
  id_attr :: "string option"
  wtl_uid :: "string option"
  clicks_received :: nat

type_synonym dom_document = "dom_node list"

fun first_index :: "('n \<Rightarrow> bool) \<Rightarrow> 'n list \<Rightarrow> nat option" where
  "first_index P [] = None"
| "first_index P (n # ns) = (if P n then Some 0 else map_option Suc (first_index P ns))"

text \<open>The string a value is coerced to where a string is expected.\<close>

fun toString :: "'e jsval \<Rightarrow> string" where
  "toString JNull = ''null''"
| "toString JUndefined = ''undefined''"
| "toString (JString s) = s"
| "toString (JElement e) = ''[object HTMLElement]''"

text \<open>
  Modelled from the spec: \<open>document.querySelector\<close> is the browser's primitive and not
  part of the script. The spec describes it as resolving the first element matching
  a structural query against the live document, and as raising an engine-level
  failure on an invalid query. The selector language is a parameter: \<open>engine\<close> parses
  the argument to a predicate on nodes, or rejects it.
\<close>

definition dom_querySelector ::
  "(nat jsval \<Rightarrow> ('n \<Rightarrow> bool) option) \<Rightarrow> 'n list \<Rightarrow> nat jsval \<Rightarrow> dom_exception + nat jsval" where
  "dom_querySelector engine doc selector =
     (case engine selector of
        None \<Rightarrow> Inl SyntaxError
      | Some P \<Rightarrow>
          (case first_index P doc of
             None \<Rightarrow> Inr JNull
           | Some i \<Rightarrow> Inr (JElement i)))"

text \<open>
  Modelled from the spec: \<open>findElementByWtlUid\<close> of \<open>dom.js\<close> is missing. The spec
  describes it as a scan of the elements carrying a stable-identifier attribute for
  one whose value equals the locator, the first in document order winning.
\<close>

definition dom_findElementByWtlUid ::
  "dom_document \<Rightarrow> nat jsval \<Rightarrow> dom_exception + nat jsval" where
  "dom_findElementByWtlUid doc wtlUid =
     (case first_index (\<lambda>n. wtl_uid n = Some (toString wtlUid)) doc of
        None \<Rightarrow> Inr JNull
      | Some i \<Rightarrow> Inr (JElement i))"

text \<open>
  Modelled from the spec: \<open>clickElement\<close> of \<open>dom.js\<close> is missing. The spec leaves the
  simulated event sequence to the helper; here the click is counted on the node it
  lands on (the effect of a handler), and a value that is not an element of the
  document raises.
\<close>

definition dom_clickElement ::
  "dom_document \<Rightarrow> nat jsval \<Rightarrow> dom_document \<times> dom_exception completion" where
  "dom_clickElement doc element =
     (case element of
        JElement i \<Rightarrow>
          if i < length doc then
            (doc[i := (doc ! i)\<lparr>clicks_received := Suc (clicks_received (doc ! i))\<rparr>],
             Returned)
          else (doc, Threw TypeError)
      | _ \<Rightarrow> (doc, Threw TypeError))"

text \<open>
  A small selector language to run examples with: \<open>#name\<close> selects by id, a bare
  name selects by tag, anything else is a syntax error.
\<close>

definition is_name_char :: "char \<Rightarrow> bool" where
  "is_name_char c =
     (c \<in> set ''abcdefghijklmnopqrstuvwxyzABCDEFGHIJKLMNOPQRSTUVWXYZ0123456789-_'')"

definition simple_selector :: "nat jsval \<Rightarrow> (dom_node \<Rightarrow> bool) option" where
  "simple_selector v =
     (case toString v of
        [] \<Rightarrow> None
      | c # cs \<Rightarrow>
          if c = CHR ''#'' then
            (if cs \<noteq> [] \<and> list_all is_name_char cs
             then Some (\<lambda>n. id_attr n = Some cs) else None)
          else if list_all is_name_char (c # cs)
            then Some (\<lambda>n. tag_name n = c # cs) else None)"

definition page :: "(dom_document, nat, dom_exception) host" where
  "page = \<lparr>querySelector = dom_querySelector simple_selector,
           findElementByWtlUid = dom_findElementByWtlUid,
           clickElement = dom_clickElement\<rparr>"

definition example_document :: dom_document where
  "example_document =
     [\<lparr>tag_name = ''div'', id_attr = Some ''main'', wtl_uid = Some ''uid-1'',
       clicks_received = 0\<rparr>,
      \<lparr>tag_name = ''button'', id_attr = Some ''foo'', wtl_uid = Some ''uid-42'',
       clicks_received = 0\<rparr>,
      \<lparr>tag_name = ''button'', id_attr = None, wtl_uid = Some ''uid-43'',
       clicks_received = 0\<rparr>]"

subsection \<open>The kinds of diagnostic\<close>

text \<open>
  A diagnostic is identified by the console method it goes through and its fixed
  message; the value logged with it varies with the arguments.
\<close>

datatype channel = ErrorChannel | LogChannel

fun kind_of :: "'e event \<Rightarrow> (channel \<times> string) option" where
  "kind_of (ConsoleError m v) = Some (ErrorChannel, m)"
| "kind_of (ConsoleLog m v) = Some (LogChannel, m)"
| "kind_of ev = None"

text \<open>The kinds that some invocation, on some page and document, does emit.\<close>

definition diagnostic_events :: "(channel \<times> string) set" where
  "diagnostic_events =
     {k. \<exists>(h :: (dom_document, nat, dom_exception) host) arguments doc.
           Some k \<in> kind_of ` set (trace (click_element h arguments doc))}"

section \<open>Helper facts\<close>

lemmas page_simps =
  page_def argument_def dom_querySelector_def simple_selector_def is_name_char_def
  example_document_def dom_findElementByWtlUid_def dom_clickElement_def

lemmas diagnostic_defs =
  primary_lookup_failed_def fallback_attempted_def fallback_lookup_failed_def

lemmas trace_defs =
  clicks_def diagnostics_def primary_lookups_def fallback_lookups_def

lemma first_index_None: "first_index P xs = None \<longleftrightarrow> filter P xs = []"
  by (induction xs) auto

lemma first_index_Some:
  "first_index P xs = Some i \<Longrightarrow> i < length xs \<and> P (xs ! i) \<and> (\<forall>j<i. \<not> P (xs ! j))"
proof (induction xs arbitrary: i)
  case Nil
  then show ?case by simp
next
  case (Cons x xs)
  show ?case
  proof (cases "P x")
    case True
    with Cons.prems show ?thesis by simp
  next
    case False
    with Cons.prems obtain k where k: "first_index P xs = Some k" and i: "i = Suc k"
      by auto
    from Cons.IH [OF k] have "k < length xs" "P (xs ! k)" "\<forall>j<k. \<not> P (xs ! j)"
      by simp_all
    with False i show ?thesis
      by (auto simp: less_Suc_eq_0_disj)
  qed
qed

lemma first_index_same_pattern:
  "map P xs = map P ys \<Longrightarrow> first_index P xs = first_index P ys"
proof (induction xs arbitrary: ys)
  case Nil
  then show ?case by simp
next
  case (Cons x xs)
  then obtain y ys' where ys: "ys = y # ys'" by (cases ys) auto
  with Cons.prems have "P x = P y" "map P xs = map P ys'" by simp_all
  with Cons.IH [of ys'] ys show ?case by simp
qed

lemma run_total_failure:
  "click_element page [JString ''#missing'', JString ''uid-99''] example_document =
     \<lparr>document = example_document,
      trace = [QuerySelector (JString ''#missing''),
               primary_lookup_failed (JString ''#missing''),
               fallback_attempted (JString ''uid-99''),
               FindElementByWtlUid (JString ''uid-99''),
               fallback_lookup_failed (JString ''uid-99'')],
      completion = Returned\<rparr>"
  by (simp add: click_element_def Let_def page_simps diagnostic_defs)

lemma kinds_of_run:
  "kind_of ` set (trace (click_element h arguments doc)) \<subseteq>
     {None,
      Some (ErrorChannel, ''click_element: Element not found with selector: ''),
      Some (LogChannel, ''click_element: Trying to find element by wtl-uid: ''),
      Some (ErrorChannel, ''click_element: Element not found with wtl-uid: '')}"
  by (simp add: click_element_def Let_def split: sum.splits prod.splits)

lemma diagnostic_events_eq:
  "diagnostic_events =
     {(ErrorChannel, ''click_element: Element not found with selector: ''),
      (LogChannel, ''click_element: Trying to find element by wtl-uid: ''),
      (ErrorChannel, ''click_element: Element not found with wtl-uid: '')}"
  (is "?L = ?R")
proof
  show "?L \<subseteq> ?R"
  proof
    fix k assume "k \<in> ?L"
    then obtain h :: "(dom_document, nat, dom_exception) host" and arguments doc
      where "Some k \<in> kind_of ` set (trace (click_element h arguments doc))"
      unfolding diagnostic_events_def by blast
    with kinds_of_run [of h arguments doc] show "k \<in> ?R" by auto
  qed
next
  have "Some k \<in> kind_of `
          set (trace (click_element page [JString ''#missing'', JString ''uid-99'']
                 example_document))"
    if "k \<in> ?R" for k
    using that by (auto simp: run_total_failure diagnostic_defs image_iff)
  then show "?R \<subseteq> ?L"
    unfolding diagnostic_events_def by blast
qed

section \<open>The claims\<close>

text \<open>
  C1 (fallback success). When the primary lookup yields \<open>null\<close>, a secondary locator
  was passed as second argument (a locator is a string, hence not \<open>null\<close>) and the
  lookup by stable identifier yields an element, the invocation emits the
  primary-lookup-failed and the fallback-attempted diagnostics, in that order,
  performs the fallback lookup and then dispatches one click, on the element the
  fallback lookup yielded.
\<close>

theorem fallback_success:
  assumes "querySelector h doc (argument arguments 0) = Inr JNull"
    and "1 < length arguments"
    and "arguments ! 1 = uid"
    and "uid \<noteq> JNull"
    and "findElementByWtlUid h doc uid = Inr (JElement e)"
  shows "trace (click_element h arguments doc) =
           [QuerySelector (argument arguments 0),
            primary_lookup_failed (argument arguments 0),
            fallback_attempted uid,
            FindElementByWtlUid uid,
            ClickElement (JElement e)]
         \<and> clicks (trace (click_element h arguments doc)) = [ClickElement (JElement e)]
         \<and> diagnostics (trace (click_element h arguments doc)) =
             [primary_lookup_failed (argument arguments 0), fallback_attempted uid]"
  using assms
  by (simp add: click_element_def Let_def argument_def diagnostic_defs trace_defs
        split: prod.splits)

theorem fallback_success_witness:
  "querySelector page example_document
     (argument [JString ''#missing'', JString ''uid-42''] 0) = Inr JNull
   \<and> 1 < length [JString ''#missing'', JString ''uid-42'' :: nat jsval]
   \<and> findElementByWtlUid page example_document (JString ''uid-42'') = Inr (JElement 1)
   \<and> clicks (trace (click_element page [JString ''#missing'', JString ''uid-42'']
                      example_document)) = [ClickElement (JElement 1)]
   \<and> diagnostics (trace (click_element page [JString ''#missing'', JString ''uid-42'']
                           example_document)) =
       [primary_lookup_failed (JString ''#missing''), fallback_attempted (JString ''uid-42'')]"
  using fallback_success [of page example_document
          "[JString ''#missing'', JString ''uid-42'']" "JString ''uid-42''" 1]
  by (simp add: page_simps trace_defs diagnostic_defs)

text \<open>
  C2 (primary success). When the primary lookup yields an element, the invocation
  consists of that lookup and one click on that element: no diagnostic, no
  fallback lookup. The invocation ends with the click helper: the document and
  the completion are the helper's, so the script returns as soon as the helper does.
\<close>

theorem primary_success:
  assumes "querySelector h doc (argument arguments 0) = Inr (JElement e)"
  shows "trace (click_element h arguments doc) =
           [QuerySelector (argument arguments 0), ClickElement (JElement e)]
         \<and> clicks (trace (click_element h arguments doc)) = [ClickElement (JElement e)]
         \<and> diagnostics (trace (click_element h arguments doc)) = []
         \<and> fallback_lookups (trace (click_element h arguments doc)) = []
         \<and> (document (click_element h arguments doc),
             completion (click_element h arguments doc)) =
            clickElement h doc (JElement e)"
  using assms
  by (simp add: click_element_def Let_def trace_defs split: prod.splits)

theorem primary_success_witness:
  "querySelector page example_document (argument [JString ''#foo''] 0) = Inr (JElement 1)
   \<and> trace (click_element page [JString ''#foo''] example_document) =
       [QuerySelector (JString ''#foo''), ClickElement (JElement 1)]
   \<and> diagnostics (trace (click_element page [JString ''#foo''] example_document)) = []
   \<and> completion (click_element page [JString ''#foo''] example_document) = Returned"
  using primary_success [of page example_document "[JString ''#foo'']" 1]
  by (simp add: page_simps trace_defs diagnostic_defs)

text \<open>
  C3 (total failure, no fallback supplied). When the primary lookup yields \<open>null\<close>
  and the invocation has no second argument, the invocation emits the
  primary-lookup-failed diagnostic and nothing else: no fallback lookup, no click,
  the document as it was, and it returns normally.
\<close>

theorem primary_failure_without_fallback:
  assumes "querySelector h doc (argument arguments 0) = Inr JNull"
    and "length arguments \<le> 1"
  shows "click_element h arguments doc =
           \<lparr>document = doc,
            trace = [QuerySelector (argument arguments 0),
                     primary_lookup_failed (argument arguments 0)],
            completion = Returned\<rparr>
         \<and> diagnostics (trace (click_element h arguments doc)) =
             [primary_lookup_failed (argument arguments 0)]
         \<and> clicks (trace (click_element h arguments doc)) = []
         \<and> fallback_lookups (trace (click_element h arguments doc)) = []"
  using assms
  by (simp add: click_element_def Let_def diagnostic_defs trace_defs)

theorem primary_failure_without_fallback_witness:
  "querySelector page example_document (argument [JString ''#missing''] 0) = Inr JNull
   \<and> length [JString ''#missing'' :: nat jsval] \<le> 1
   \<and> click_element page [JString ''#missing''] example_document =
       \<lparr>document = example_document,
        trace = [QuerySelector (JString ''#missing''),
                 primary_lookup_failed (JString ''#missing'')],
        completion = Returned\<rparr>"
  using primary_failure_without_fallback [of page example_document "[JString ''#missing'']"]
  by (simp add: page_simps trace_defs diagnostic_defs)

text \<open>
  C4 (total failure, fallback supplied but absent). When the primary lookup yields
  \<open>null\<close>, a secondary locator was passed as second argument and the lookup by
  stable identifier yields \<open>null\<close> as well, the invocation emits the three
  diagnostics primary-lookup-failed, fallback-attempted, fallback-failed in that
  order, dispatches no click, leaves the document as it was and returns normally.
\<close>

theorem total_failure_with_fallback:
  assumes "querySelector h doc (argument arguments 0) = Inr JNull"
    and "1 < length arguments"
    and "arguments ! 1 = uid"
    and "uid \<noteq> JNull"
    and "findElementByWtlUid h doc uid = Inr JNull"
  shows "click_element h arguments doc =
           \<lparr>document = doc,
            trace = [QuerySelector (argument arguments 0),
                     primary_lookup_failed (argument arguments 0),
                     fallback_attempted uid,
                     FindElementByWtlUid uid,
                     fallback_lookup_failed uid],
            completion = Returned\<rparr>
         \<and> diagnostics (trace (click_element h arguments doc)) =
             [primary_lookup_failed (argument arguments 0),
              fallback_attempted uid,
              fallback_lookup_failed uid]
         \<and> clicks (trace (click_element h arguments doc)) = []"
  using assms
  by (simp add: click_element_def Let_def argument_def diagnostic_defs trace_defs)

theorem total_failure_with_fallback_witness:
  "querySelector page example_document
     (argument [JString ''#missing'', JString ''uid-99''] 0) = Inr JNull
   \<and> 1 < length [JString ''#missing'', JString ''uid-99'' :: nat jsval]
   \<and> findElementByWtlUid page example_document (JString ''uid-99'') = Inr JNull
   \<and> diagnostics (trace (click_element page [JString ''#missing'', JString ''uid-99'']
                           example_document)) =
       [primary_lookup_failed (JString ''#missing''),
        fallback_attempted (JString ''uid-99''),
        fallback_lookup_failed (JString ''uid-99'')]
   \<and> clicks (trace (click_element page [JString ''#missing'', JString ''uid-99'']
                      example_document)) = []
   \<and> completion (click_element page [JString ''#missing'', JString ''uid-99'']
                    example_document) = Returned"
  using total_failure_with_fallback [of page example_document
          "[JString ''#missing'', JString ''uid-99'']" "JString ''uid-99''"]
  by (simp add: page_simps trace_defs diagnostic_defs)

text \<open>
  C5 (when the fallback is attempted). The claim reads: after a failed primary
  lookup the fallback lookup is attempted exactly when a second argument was
  passed, whatever its value. The script does not do that: it initialises
  \<open>wtlUid\<close> to \<open>null\<close>, overwrites it with a second argument when there is one, and
  then tests \<open>wtlUid === null\<close>, so a second argument that is \<open>null\<close> is treated as
  no argument at all. What holds: the fallback lookup is attempted exactly when a
  second argument was passed and it is not \<open>null\<close>, and then it is attempted once,
  with that argument.
\<close>

theorem fallback_iff_second_argument_not_null:
  assumes "querySelector h doc (argument arguments 0) = Inr JNull"
  shows "fallback_lookups (trace (click_element h arguments doc)) =
           (if 1 < length arguments \<and> arguments ! 1 \<noteq> JNull
            then [FindElementByWtlUid (arguments ! 1)] else [])"
  using assms
  by (simp add: click_element_def Let_def argument_def trace_defs
        split: sum.splits prod.splits)

theorem fallback_iff_second_argument_not_null_witness:
  "querySelector page example_document
     (argument [JString ''#missing'', JString ''uid-42''] 0) = Inr JNull
   \<and> 1 < length [JString ''#missing'', JString ''uid-42'' :: nat jsval]
   \<and> fallback_lookups (trace (click_element page [JString ''#missing'', JString ''uid-42'']
                                example_document)) =
       [FindElementByWtlUid (JString ''uid-42'')]"
  using fallback_iff_second_argument_not_null [of page example_document
          "[JString ''#missing'', JString ''uid-42'']"]
  by (simp add: page_simps)

text \<open>
  The input at which C5 fails as stated: the primary lookup fails, the invocation
  has two arguments, the second is \<open>null\<close>, and no fallback lookup is made.
\<close>

theorem fallback_by_arity_counterexample:
  "querySelector page example_document (argument [JString ''#missing'', JNull] 0) =
     Inr JNull
   \<and> 1 < length [JString ''#missing'', JNull :: nat jsval]
   \<and> fallback_lookups (trace (click_element page [JString ''#missing'', JNull]
                                example_document)) = []
   \<and> click_element page [JString ''#missing'', JNull] example_document =
       \<lparr>document = example_document,
        trace = [QuerySelector (JString ''#missing''),
                 primary_lookup_failed (JString ''#missing'')],
        completion = Returned\<rparr>"
  by (simp add: click_element_def Let_def page_simps trace_defs diagnostic_defs)

text \<open>
  C6 (the diagnostic events). The claim counts four possible diagnostic events and
  names three. The script has three console calls and so three kinds of
  diagnostic: every diagnostic of every invocation is the primary-lookup-failed,
  the fallback-attempted or the fallback-failed one (logged with the first resp.
  the second argument), each of the three is emitted by some invocation, and
  there is no fourth.
\<close>

theorem three_diagnostic_events:
  "set (diagnostics (trace (click_element h arguments doc))) \<subseteq>
     {primary_lookup_failed (argument arguments 0),
      fallback_attempted (argument arguments 1),
      fallback_lookup_failed (argument arguments 1)}
   \<and> diagnostic_events =
       {(ErrorChannel, ''click_element: Element not found with selector: ''),
        (LogChannel, ''click_element: Trying to find element by wtl-uid: ''),
        (ErrorChannel, ''click_element: Element not found with wtl-uid: '')}
   \<and> card diagnostic_events = 3"
proof -
  have "set (diagnostics (trace (click_element h arguments doc))) \<subseteq>
     {primary_lookup_failed (argument arguments 0),
      fallback_attempted (argument arguments 1),
      fallback_lookup_failed (argument arguments 1)}"
    by (auto simp: click_element_def Let_def diagnostic_defs diagnostics_def
          split: sum.splits prod.splits)
  moreover have "card diagnostic_events = 3"
    by (simp add: diagnostic_events_eq)
  ultimately show ?thesis
    using diagnostic_events_eq by simp
qed

text \<open>The count of C6 fails: the diagnostic events are not four.\<close>

theorem four_diagnostic_events_counterexample:
  "card diagnostic_events \<noteq> 4"
  by (simp add: diagnostic_events_eq)

text \<open>
  C7 (malformed locator). When the query primitive raises on the primary locator,
  the invocation ends there with that same exception: the script has no handler.
  Nothing was logged, no fallback lookup was made, nothing was clicked and the
  document is as it was.
\<close>

theorem malformed_locator_propagates:
  assumes "querySelector h doc (argument arguments 0) = Inl x"
  shows "click_element h arguments doc =
           \<lparr>document = doc,
            trace = [QuerySelector (argument arguments 0)],
            completion = Threw x\<rparr>
         \<and> diagnostics (trace (click_element h arguments doc)) = []
         \<and> fallback_lookups (trace (click_element h arguments doc)) = []
         \<and> clicks (trace (click_element h arguments doc)) = []"
  using assms
  by (simp add: click_element_def Let_def trace_defs)

theorem malformed_locator_propagates_witness:
  "querySelector page example_document (argument [JString ''div['', JString ''uid-42''] 0) =
     Inl SyntaxError
   \<and> click_element page [JString ''div['', JString ''uid-42''] example_document =
       \<lparr>document = example_document,
        trace = [QuerySelector (JString ''div['')],
        completion = Threw SyntaxError\<rparr>"
  using malformed_locator_propagates [of page example_document
          "[JString ''div['', JString ''uid-42'']" SyntaxError]
  by (simp add: page_simps)

text \<open>
  C8 (one attempt per tier). Every invocation makes at most one primary lookup, at
  most one fallback lookup and at most one click, and it makes no fallback lookup
  unless the primary lookup came back with \<open>null\<close>.
\<close>

theorem single_attempt_per_tier:
  "length (primary_lookups (trace (click_element h arguments doc))) \<le> 1
   \<and> length (fallback_lookups (trace (click_element h arguments doc))) \<le> 1
   \<and> length (clicks (trace (click_element h arguments doc))) \<le> 1
   \<and> (querySelector h doc (argument arguments 0) \<noteq> Inr JNull \<longrightarrow>
        fallback_lookups (trace (click_element h arguments doc)) = [])"
  by (simp add: click_element_def Let_def trace_defs split: sum.splits prod.splits)

theorem single_attempt_per_tier_witness:
  "querySelector page example_document (argument [JString ''#foo'', JString ''uid-43''] 0)
     \<noteq> Inr JNull
   \<and> fallback_lookups (trace (click_element page [JString ''#foo'', JString ''uid-43'']
                                example_document)) = []
   \<and> length (primary_lookups (trace (click_element page [JString ''#foo'', JString ''uid-43'']
                                        example_document))) \<le> 1
   \<and> length (clicks (trace (click_element page [JString ''#foo'', JString ''uid-43'']
                               example_document))) \<le> 1"
  using single_attempt_per_tier [of page "[JString ''#foo'', JString ''uid-43'']"
          example_document]
  by (simp add: page_simps)

text \<open>
  C9 (first match, repeatably). On a page whose query primitive resolves the first
  match in document order, and for a locator that two or more elements of the
  document match, the invocation dispatches exactly one click, on the matching
  element that no matching element precedes. A further invocation with the same
  arguments, on a document in which the same positions match the locator (the
  document the first invocation leaves, when the click changed nothing that the
  locator reads), dispatches its one click on that same element.
\<close>

theorem first_match_determinism:
  assumes "querySelector h = dom_querySelector engine"
    and "engine (argument arguments 0) = Some P"
    and "2 \<le> length (filter P doc)"
  shows "\<exists>i. clicks (trace (click_element h arguments doc)) = [ClickElement (JElement i)]
             \<and> i < length doc \<and> P (doc ! i) \<and> (\<forall>j<i. \<not> P (doc ! j))
             \<and> (map P doc' = map P doc \<longrightarrow>
                  clicks (trace (click_element h arguments doc')) =
                    [ClickElement (JElement i)])"
proof -
  from assms(3) have "filter P doc \<noteq> []" by auto
  then obtain i where i: "first_index P doc = Some i"
    using first_index_None [of P doc] by auto
  have click: "clicks (trace (click_element h arguments d)) = [ClickElement (JElement i)]"
    if "first_index P d = Some i" for d
  proof -
    from that assms(1,2)
    have "querySelector h d (argument arguments 0) = Inr (JElement i)"
      by (simp add: dom_querySelector_def)
    then show ?thesis
      by (simp add: click_element_def Let_def trace_defs split: prod.splits)
  qed
  have "clicks (trace (click_element h arguments doc')) = [ClickElement (JElement i)]"
    if "map P doc' = map P doc"
    using click [of doc'] first_index_same_pattern [OF that] i by simp
  moreover from first_index_Some [OF i]
  have "i < length doc \<and> P (doc ! i) \<and> (\<forall>j<i. \<not> P (doc ! j))" .
  ultimately show ?thesis
    using click [OF i] by auto
qed

theorem first_match_determinism_witness:
  "querySelector page = dom_querySelector simple_selector
   \<and> simple_selector (argument [JString ''button''] 0) = Some (\<lambda>n. tag_name n = ''button'')
   \<and> 2 \<le> length (filter (\<lambda>n. tag_name n = ''button'') example_document)
   \<and> clicks (trace (click_element page [JString ''button''] example_document)) =
       [ClickElement (JElement 1)]
   \<and> document (click_element page [JString ''button''] example_document) \<noteq> example_document
   \<and> map (\<lambda>n. tag_name n = ''button'')
         (document (click_element page [JString ''button''] example_document)) =
       map (\<lambda>n. tag_name n = ''button'') example_document
   \<and> clicks (trace (click_element page [JString ''button'']
                      (document (click_element page [JString ''button''] example_document)))) =
       [ClickElement (JElement 1)]"
  using first_match_determinism [of page simple_selector "[JString ''button'']"
          "\<lambda>n. tag_name n = ''button''" example_document
          "document (click_element page [JString ''button''] example_document)"]
  by (simp add: page_simps trace_defs click_element_def Let_def)

text \<open>
  C10 (no mutation beyond the click). The script queries the document it is
  invoked on, once and in every invocation, and changes it only through the click
  helper: either nothing is clicked and the document is as it was, or exactly one
  value is clicked, the document is what the click helper made of the original
  one, and the value clicked is one that a lookup on the original document
  returned (the script builds no element of its own).
\<close>

theorem no_mutation_beyond_click:
  "primary_lookups (trace (click_element h arguments doc)) =
     [QuerySelector (argument arguments 0)]
   \<and> ((clicks (trace (click_element h arguments doc)) = []
        \<and> document (click_element h arguments doc) = doc)
      \<or> (\<exists>v. clicks (trace (click_element h arguments doc)) = [ClickElement v]
              \<and> document (click_element h arguments doc) = fst (clickElement h doc v)
              \<and> (querySelector h doc (argument arguments 0) = Inr v
                 \<or> findElementByWtlUid h doc (argument arguments 1) = Inr v)))"
  by (simp add: click_element_def Let_def trace_defs split: sum.splits prod.splits)

end
